theory Spec2Isabelle
  imports Complex_Main "HOL-Library.AList"
begin

section \<open>The integrated attendance system of \<^verbatim>\<open>Testcode.py\<close>\<close>

text \<open>
  A shallow embedding of class \<^verbatim>\<open>IntegratedAttendanceSystem\<close>: the SQLite tables
  of \<^verbatim>\<open>init_local_db\<close>, the enrolment methods, the intake loop
  \<^verbatim>\<open>mark_attendance_rfid\<close>, the verification pass \<^verbatim>\<open>verify_attendance\<close> with its
  Firestore mirror, and the menu branch of \<^verbatim>\<open>run\<close> that starts the loop.
  What the hardware and the libraries supply (the card reader, the camera, the clock, the
  success or failure of a store write) is an input of the model; LEDs, buzzer and console
  output change no state the code reads back and appear only as the outcome a step reports.
\<close>

subsection \<open>Data\<close>

text \<open>
  The reader returns the card number as an integer and every table stores \<^verbatim>\<open>str(rfid_id)\<close>;
  the decimal rendering is injective, so a column of that text is modelled by the number.
  A face descriptor is a vector of 128 floats computed by dlib. The code modelled here
  stores and counts descriptors and never inspects their entries.
\<close>

type_synonym rfid = int
type_synonym descriptor = "real list"

text \<open>Table \<^verbatim>\<open>students\<close>: \<^verbatim>\<open>unique_id\<close> is the primary key, \<^verbatim>\<open>rfid_id\<close> is UNIQUE.\<close>

record student_row =
  s_unique_id :: string
  s_name :: string
  s_rfid_id :: rfid
  s_face_descriptors :: "descriptor list"

text \<open>Table \<^verbatim>\<open>lecturers\<close>: \<^verbatim>\<open>unique_id\<close> is the primary key, \<^verbatim>\<open>rfid_id\<close> is UNIQUE.\<close>

record lecturer_row =
  l_unique_id :: string
  l_name :: string
  l_rfid_id :: rfid
  l_course_name :: string
  l_course_code :: string

text \<open>Table \<^verbatim>\<open>attendance_log\<close>: no key and no uniqueness constraint.\<close>

record attendance_row =
  a_unique_id :: string
  a_name :: string
  a_date :: string
  a_session_id :: string
  a_rfid_time :: string
  a_face_time :: "string option"
  a_status :: string

text \<open>The value staged for a tapped student: \<^verbatim>\<open>{'name': ..., 'rfid_time': ...}\<close>.\<close>

record pending =
  p_name :: string
  p_rfid_time :: string

text \<open>
  A Python dict keeps its keys in insertion order, and the verification pass iterates in
  that order; it is an association list whose keys are distinct.
\<close>

type_synonym attendance_dict = "(string \<times> pending) list"

text \<open>The Firestore documents: \<^verbatim>\<open>lectures/{session_id}\<close> and, below it, \<^verbatim>\<open>attendance/{rfid_id}\<close>.\<close>

record lecture_doc =
  d_course_name :: string
  d_course_code :: string
  d_lecturer_name :: string
  d_lecturer_rfid :: rfid
  d_start_time :: string
  d_status :: string

record attendance_doc =
  m_unique_id :: string
  m_rfid_id :: rfid
  m_name :: string
  m_date :: string
  m_time :: string
  m_status :: string

text \<open>
  The whole state: the attributes of \<^verbatim>\<open>self\<close> that \<^verbatim>\<open>__init__\<close> sets up for session
  management, the three tables of \<^verbatim>\<open>attendance.db\<close>, and the two Firestore collections.
\<close>

record system =
  current_session :: "string option"
  temp_attendance :: attendance_dict
  persistent_rfid_attendance :: attendance_dict
  new_rfid_attendance :: attendance_dict
  students :: "student_row list"
  lecturers :: "lecturer_row list"
  attendance_log :: "attendance_row list"
  lectures :: "(string \<times> lecture_doc) list"
  lecture_attendance :: "((string \<times> rfid) \<times> attendance_doc) list"

text \<open>The state \<^verbatim>\<open>__init__\<close> leaves over the given tables and remote collections.\<close>

definition init_system ::
  "student_row list \<Rightarrow> lecturer_row list \<Rightarrow> attendance_row list \<Rightarrow> system" where
  "init_system ss ls rows =
     \<lparr>current_session = None, temp_attendance = [], persistent_rfid_attendance = [],
      new_rfid_attendance = [], students = ss, lecturers = ls, attendance_log = rows,
      lectures = [], lecture_attendance = []\<rparr>"

subsection \<open>Identity store and enrolment\<close>

text \<open>
  \<^verbatim>\<open>generate_unique_id\<close>: \<^verbatim>\<open>hashlib.sha256(name.encode()).hexdigest()[:16]\<close>. The digest
  is a library function; it is the parameter \<open>sha256_hex\<close>, the map from a name to the
  64 hexadecimal digits of its SHA-256.
\<close>

definition generate_unique_id :: "(string \<Rightarrow> string) \<Rightarrow> string \<Rightarrow> string" where
  "generate_unique_id sha256_hex name = take 16 (sha256_hex name)"

text \<open>\<^verbatim>\<open>is_rfid_registered\<close>: a row of either table carries the card.\<close>

definition is_rfid_registered :: "system \<Rightarrow> rfid \<Rightarrow> bool" where
  "is_rfid_registered s rfid_id =
     (let student_rfid = find (\<lambda>r. s_rfid_id r = rfid_id) (students s);
          lecturer_rfid = find (\<lambda>r. l_rfid_id r = rfid_id) (lecturers s)
      in student_rfid \<noteq> None \<or> lecturer_rfid \<noteq> None)"

text \<open>
  \<^verbatim>\<open>capture_face_samples\<close>: three prompts, one capture each; \<open>camera i\<close> is what
  \<^verbatim>\<open>capture_face_sample\<close> returns at prompt \<open>i\<close> (a descriptor, or \<^verbatim>\<open>None\<close> after the
  timeout or a key press). The descriptors obtained are kept in prompt order.
\<close>

definition capture_face_samples :: "(nat \<Rightarrow> descriptor option) \<Rightarrow> descriptor list" where
  "capture_face_samples camera = List.map_filter camera [0..<3]"

text \<open>
  The two INSERT statements. SQLite raises \<^verbatim>\<open>IntegrityError\<close> when the primary key or
  the UNIQUE column of the new row is already in the table; \<open>None\<close> is that exception.
\<close>

definition insert_student :: "system \<Rightarrow> student_row \<Rightarrow> system option" where
  "insert_student s row =
     (if list_ex (\<lambda>r. s_unique_id r = s_unique_id row \<or> s_rfid_id r = s_rfid_id row) (students s)
      then None
      else Some (s\<lparr>students := students s @ [row]\<rparr>))"

definition insert_lecturer :: "system \<Rightarrow> lecturer_row \<Rightarrow> system option" where
  "insert_lecturer s row =
     (if list_ex (\<lambda>r. l_unique_id r = l_unique_id row \<or> l_rfid_id r = l_rfid_id row) (lecturers s)
      then None
      else Some (s\<lparr>lecturers := lecturers s @ [row]\<rparr>))"

text \<open>
  What an enrolment reports besides its return value: the message it prints. Every
  failure returns \<^verbatim>\<open>None\<close>; the messages tell them apart.
  \<^item> \<open>Registered\<close>: "Successfully registered ...";
  \<^item> \<open>RfidAlreadyRegistered\<close>: "Error: RFID card already registered.";
  \<^item> \<open>FaceRegistrationIncomplete\<close>: "Face registration incomplete. Please try again.";
  \<^item> \<open>InsertIntegrityError\<close>: "Error: RFID card already registered to another ...",
    printed for any \<^verbatim>\<open>IntegrityError\<close> of the INSERT;
  \<^item> \<open>RegistrationError\<close>: the outer \<^verbatim>\<open>except Exception\<close>, here for a reader that raises.
\<close>

datatype registration_message =
  Registered | RfidAlreadyRegistered | FaceRegistrationIncomplete | InsertIntegrityError
  | RegistrationError

text \<open>
  \<^verbatim>\<open>register_student\<close>. \<open>reading\<close> is the result of \<^verbatim>\<open>self.reader.read()\<close> (\<open>None\<close>: it
  raised), \<open>name\<close> the line typed at the prompt. The result is the state, the value
  returned and the message printed.
\<close>

definition register_student ::
  "(string \<Rightarrow> string) \<Rightarrow> system \<Rightarrow> rfid option \<Rightarrow> string \<Rightarrow> (nat \<Rightarrow> descriptor option)
     \<Rightarrow> system \<times> string option \<times> registration_message" where
  "register_student sha256_hex s reading name camera =
     (case reading of
        None \<Rightarrow> (s, None, RegistrationError)
      | Some rfid_id \<Rightarrow>
          if is_rfid_registered s rfid_id then (s, None, RfidAlreadyRegistered)
          else
            let unique_id = generate_unique_id sha256_hex name;
                face_descriptors = capture_face_samples camera
            in if face_descriptors = [] \<or> length face_descriptors < 2
               then (s, None, FaceRegistrationIncomplete)
               else
                 (case insert_student s
                         \<lparr>s_unique_id = unique_id, s_name = name, s_rfid_id = rfid_id,
                          s_face_descriptors = face_descriptors\<rparr> of
                    Some s' \<Rightarrow> (s', Some unique_id, Registered)
                  | None \<Rightarrow> (s, None, InsertIntegrityError)))"

text \<open>\<^verbatim>\<open>register_lecturer\<close>: the same card check, no face step.\<close>

definition register_lecturer ::
  "(string \<Rightarrow> string) \<Rightarrow> system \<Rightarrow> rfid option \<Rightarrow> string \<Rightarrow> string \<Rightarrow> string
     \<Rightarrow> system \<times> string option \<times> registration_message" where
  "register_lecturer sha256_hex s reading name course_name course_code =
     (case reading of
        None \<Rightarrow> (s, None, RegistrationError)
      | Some rfid_id \<Rightarrow>
          if is_rfid_registered s rfid_id then (s, None, RfidAlreadyRegistered)
          else
            let unique_id = generate_unique_id sha256_hex name
            in (case insert_lecturer s
                       \<lparr>l_unique_id = unique_id, l_name = name, l_rfid_id = rfid_id,
                        l_course_name = course_name, l_course_code = course_code\<rparr> of
                  Some s' \<Rightarrow> (s', Some unique_id, Registered)
                | None \<Rightarrow> (s, None, InsertIntegrityError)))"

subsection \<open>Verification pass\<close>

text \<open>
  What the environment supplies while one staged identity is verified:
  \<^item> \<open>e_face\<close>: the result of \<^verbatim>\<open>verify_face\<close> (a stored descriptor was closer than the
    threshold to a captured one, or none was before the window closed), or a
    \<^verbatim>\<open>KeyboardInterrupt\<close> arriving while the camera window is open;
  \<^item> \<open>e_date\<close>, \<open>e_time\<close>: \<^verbatim>\<open>datetime.now()\<close> of \<^verbatim>\<open>verify_attendance\<close>, formatted;
  \<^item> \<open>e_local_write_ok\<close>: whether the INSERT into \<^verbatim>\<open>attendance_log\<close> and its commit
    succeed (otherwise SQLite raises);
  \<^item> \<open>e_mirror_date\<close>, \<open>e_mirror_time\<close>: \<^verbatim>\<open>datetime.now()\<close> of
    \<^verbatim>\<open>log_attendance_to_firebase\<close>;
  \<^item> \<open>e_remote_write_ok\<close>: whether the Firestore \<^verbatim>\<open>set\<close> of the attendance document
    succeeds (otherwise it raises).
\<close>

datatype face_capture = FaceMatched | FaceNotMatched | CaptureInterrupted

record record_env =
  e_face :: face_capture
  e_date :: string
  e_time :: string
  e_local_write_ok :: bool
  e_mirror_date :: string
  e_mirror_time :: string
  e_remote_write_ok :: bool

text \<open>
  \<^verbatim>\<open>log_attendance_to_firebase\<close>: the whole body is inside \<^verbatim>\<open>try ... except Exception\<close>,
  so a failed remote write (and \<^verbatim>\<open>document(None)\<close> without a session) only logs.
\<close>

definition log_attendance_to_firebase ::
  "system \<Rightarrow> record_env \<Rightarrow> string \<Rightarrow> string \<Rightarrow> string \<Rightarrow> system" where
  "log_attendance_to_firebase s env unique_id name status =
     (case find (\<lambda>r. s_unique_id r = unique_id) (students s) of
        None \<Rightarrow> s
      | Some rfid_result \<Rightarrow>
          (case current_session s of
             None \<Rightarrow> s
           | Some session \<Rightarrow>
               if e_remote_write_ok env
               then s\<lparr>lecture_attendance :=
                        AList.update (session, s_rfid_id rfid_result)
                          \<lparr>m_unique_id = unique_id, m_rfid_id = s_rfid_id rfid_result,
                           m_name = name, m_date = e_mirror_date env,
                           m_time = e_mirror_time env, m_status = status\<rparr>
                          (lecture_attendance s)\<rparr>
               else s))"

text \<open>
  How a pass ends: the loop ran to its end; an exception was caught by the
  \<^verbatim>\<open>except Exception\<close> around the whole loop (logged, the method returns); a
  \<^verbatim>\<open>KeyboardInterrupt\<close> left the method (it is no \<^verbatim>\<open>Exception\<close>); or there was no
  session and nothing was done.
\<close>

datatype pass_exit = PassCompleted | PassFailed | PassInterrupted | NoActiveSession

text \<open>
  The \<^verbatim>\<open>for\<close> loop of \<^verbatim>\<open>verify_attendance\<close> over the items of the dict, in order. An
  identity without a row in \<^verbatim>\<open>students\<close> is skipped. The local row is inserted and
  committed before the mirror is called.
\<close>

fun verify_records ::
  "(string \<Rightarrow> record_env) \<Rightarrow> string \<Rightarrow> (string \<times> pending) list \<Rightarrow> system
     \<Rightarrow> system \<times> pass_exit" where
  "verify_records env session [] s = (s, PassCompleted)"
| "verify_records env session ((unique_id, data) # rest) s =
     (case find (\<lambda>r. s_unique_id r = unique_id) (students s) of
        None \<Rightarrow> verify_records env session rest s
      | Some stored_descriptors \<Rightarrow>
          if e_face (env unique_id) = CaptureInterrupted then (s, PassInterrupted)
          else
            let face_verified = (e_face (env unique_id) = FaceMatched);
                status = (if face_verified then ''present'' else ''partial'')
            in if \<not> e_local_write_ok (env unique_id) then (s, PassFailed)
               else
                 let s1 = s\<lparr>attendance_log := attendance_log s @
                            [\<lparr>a_unique_id = unique_id, a_name = p_name data,
                              a_date = e_date (env unique_id), a_session_id = session,
                              a_rfid_time = p_rfid_time data,
                              a_face_time =
                                (if face_verified then Some (e_time (env unique_id)) else None),
                              a_status = status\<rparr>]\<rparr>;
                     s2 = log_attendance_to_firebase s1 (env unique_id) unique_id (p_name data) status
                 in verify_records env session rest s2)"

text \<open>\<^verbatim>\<open>verify_attendance\<close>: \<^verbatim>\<open>not self.current_session\<close> holds for None and for the empty string.\<close>

definition verify_attendance ::
  "system \<Rightarrow> (string \<Rightarrow> record_env) \<Rightarrow> attendance_dict \<Rightarrow> system \<times> pass_exit" where
  "verify_attendance s env attendance_dict =
     (case current_session s of
        None \<Rightarrow> (s, NoActiveSession)
      | Some session \<Rightarrow>
          if session = [] then (s, NoActiveSession)
          else verify_records env session attendance_dict s)"

subsection \<open>Intake loop\<close>

text \<open>
  What the environment supplies to one iteration of \<^verbatim>\<open>while True\<close>:
  \<^item> \<open>t_read\<close>: \<^verbatim>\<open>self.reader.read()\<close> returns a card, raises an exception, or the
    operator interrupts the blocked read;
  \<^item> \<open>t_stamp\<close>: \<^verbatim>\<open>datetime.now().strftime('%Y%m%d_%H%M%S')\<close>, read for the session id;
  \<^item> \<open>t_start_time\<close>: \<^verbatim>\<open>datetime.now().isoformat()\<close> of the session document;
  \<^item> \<open>t_session_write_ok\<close>: whether \<^verbatim>\<open>session_ref.set\<close> succeeds (otherwise it raises);
  \<^item> \<open>t_verify\<close>: the environment of the verification pass, by identity;
  \<^item> \<open>t_rfid_time\<close>: \<^verbatim>\<open>datetime.now().strftime('%H:%M:%S')\<close> of a student tap.
\<close>

datatype reader_result = Card rfid | ReaderException | ReaderInterrupt

record tap_env =
  t_read :: reader_result
  t_stamp :: string
  t_start_time :: string
  t_session_write_ok :: bool
  t_verify :: "string \<Rightarrow> record_env"
  t_rfid_time :: string

text \<open>What an iteration reports (its console line and LED pattern).\<close>

datatype outcome =
  SessionStarted | Unregistered | DuplicateConfirmed | DuplicateInSession | NewCheckIn

text \<open>
  How an iteration ends: \<^verbatim>\<open>continue\<close> (or the end of the body) with its outcome; an
  exception, which the \<^verbatim>\<open>except Exception\<close> outside \<^verbatim>\<open>while True\<close> catches; or a
  \<^verbatim>\<open>KeyboardInterrupt\<close>, which leaves the method.
\<close>

datatype step_exit = Next outcome | Raised | Interrupted

definition session_id_of :: "string \<Rightarrow> string \<Rightarrow> string" where
  "session_id_of course_code stamp = course_code @ ''_'' @ stamp"

text \<open>\<^verbatim>\<open>k in d\<close> and \<^verbatim>\<open>d.update(other)\<close> on dicts.\<close>

definition has_key :: "attendance_dict \<Rightarrow> string \<Rightarrow> bool" where
  "has_key d k = (k \<in> set (map fst d))"

definition dict_update :: "attendance_dict \<Rightarrow> attendance_dict \<Rightarrow> attendance_dict" where
  "dict_update d other = fold (\<lambda>(k, v). AList.update k v) other d"

text \<open>One iteration of the loop body of \<^verbatim>\<open>mark_attendance_rfid\<close>.\<close>

definition loop_iteration :: "system \<Rightarrow> tap_env \<Rightarrow> system \<times> step_exit" where
  "loop_iteration s e =
     (case t_read e of
        ReaderInterrupt \<Rightarrow> (s, Interrupted)
      | ReaderException \<Rightarrow> (s, Raised)
      | Card rfid_id \<Rightarrow>
          (case find (\<lambda>r. l_rfid_id r = rfid_id) (lecturers s) of
             Some lecturer \<Rightarrow>
               let session_id = session_id_of (l_course_code lecturer) (t_stamp e)
               in if \<not> t_session_write_ok e then (s, Raised)
                  else
                    let s1 = s\<lparr>lectures :=
                                 AList.update session_id
                                   \<lparr>d_course_name = l_course_name lecturer,
                                    d_course_code = l_course_code lecturer,
                                    d_lecturer_name = l_name lecturer,
                                    d_lecturer_rfid = rfid_id,
                                    d_start_time = t_start_time e,
                                    d_status = ''active''\<rparr>
                                   (lectures s)\<rparr>;
                        s2 = s1\<lparr>current_session := Some session_id\<rparr>;
                        s3 = s2\<lparr>persistent_rfid_attendance :=
                                  dict_update (persistent_rfid_attendance s2)
                                    (new_rfid_attendance s2)\<rparr>
                    in (case verify_attendance s3 (t_verify e) (persistent_rfid_attendance s3) of
                          (s4, PassInterrupted) \<Rightarrow> (s4, Interrupted)
                        | (s4, _) \<Rightarrow> (s4\<lparr>new_rfid_attendance := []\<rparr>, Next SessionStarted))
           | None \<Rightarrow>
               (case find (\<lambda>r. s_rfid_id r = rfid_id) (students s) of
                  None \<Rightarrow> (s, Next Unregistered)
                | Some student \<Rightarrow>
                    if has_key (persistent_rfid_attendance s) (s_unique_id student)
                    then (s, Next DuplicateConfirmed)
                    else if has_key (new_rfid_attendance s) (s_unique_id student)
                    then (s, Next DuplicateInSession)
                    else
                      (s\<lparr>new_rfid_attendance :=
                           AList.update (s_unique_id student)
                             \<lparr>p_name = s_name student, p_rfid_time = t_rfid_time e\<rparr>
                             (new_rfid_attendance s)\<rparr>,
                       Next NewCheckIn))))"

text \<open>
  \<^verbatim>\<open>mark_attendance_rfid\<close> over the reader events that have arrived so far. The loop has
  no exit of its own: after the last event it is blocked in \<^verbatim>\<open>reader.read()\<close>
  (\<open>AwaitingCard\<close>); an exception ends the method through its handler (\<open>Returned\<close>); a
  \<^verbatim>\<open>KeyboardInterrupt\<close> passes through it to the caller.
\<close>

datatype loop_exit = AwaitingCard | Returned | KeyboardInterrupt

fun mark_attendance_rfid :: "system \<Rightarrow> tap_env list \<Rightarrow> system \<times> loop_exit" where
  "mark_attendance_rfid s [] = (s, AwaitingCard)"
| "mark_attendance_rfid s (e # es) =
     (case loop_iteration s e of
        (s', Next out) \<Rightarrow> mark_attendance_rfid s' es
      | (s', Raised) \<Rightarrow> (s', Returned)
      | (s', Interrupted) \<Rightarrow> (s', KeyboardInterrupt))"

text \<open>
  Menu choice 3 of \<^verbatim>\<open>run\<close>: the loop inside \<^verbatim>\<open>try\<close>, and the handler of
  \<^verbatim>\<open>KeyboardInterrupt\<close>, which assigns \<^verbatim>\<open>temp_attendance\<close> and \<^verbatim>\<open>current_session\<close>.
\<close>

definition run_choice_3 :: "system \<Rightarrow> tap_env list \<Rightarrow> system \<times> loop_exit" where
  "run_choice_3 s es =
     (case mark_attendance_rfid s es of
        (s', KeyboardInterrupt) \<Rightarrow>
          (s'\<lparr>temp_attendance := [], current_session := None\<rparr>, KeyboardInterrupt)
      | (s', ex) \<Rightarrow> (s', ex))"

subsection \<open>The local view\<close>


subsection \<open>Inputs of the worked examples\<close>

text \<open>
  The SHA-256 digests, as \<^verbatim>\<open>hashlib\<close> prints them, of the names the examples enrol. A name
  outside this table is used by no example.
\<close>

definition sha256_hex_examples :: "string \<Rightarrow> string" where
  "sha256_hex_examples name =
     (if name = ''Ann'' then ''17239b6e250110330eda64a29c610bf146f89883371fab093feda03bec61b646''
      else if name = ''Bob'' then ''cd9fb1e148ccd8442e5aa74904cc73bf6fb54d1d54d333bd596aa9bb4bb4e961''
      else if name = ''Eve'' then ''b9bae658d96579857efe22dee62673a31355446ddc6ad270ec046aa8c717081c''
      else [])"

text \<open>A camera that returns a descriptor at every prompt, and one that does so only once.\<close>

definition camera_all :: "nat \<Rightarrow> descriptor option" where
  "camera_all i = Some []"

definition camera_once :: "nat \<Rightarrow> descriptor option" where
  "camera_once i = (if i = 0 then Some [] else None)"

text \<open>Student Ann on card 1, student Bob on card 2, lecturer Eve on card 9.\<close>

definition ann :: student_row where
  "ann = \<lparr>s_unique_id = ''17239b6e25011033'', s_name = ''Ann'', s_rfid_id = 1,
          s_face_descriptors = [[], [], []]\<rparr>"

definition bob :: student_row where
  "bob = \<lparr>s_unique_id = ''cd9fb1e148ccd844'', s_name = ''Bob'', s_rfid_id = 2,
          s_face_descriptors = [[], [], []]\<rparr>"

definition eve :: lecturer_row where
  "eve = \<lparr>l_unique_id = ''b9bae658d9657985'', l_name = ''Eve'', l_rfid_id = 9,
          l_course_name = ''Logic'', l_course_code = ''CS101''\<rparr>"

text \<open>
  A verification environment in which every face matches and every write succeeds, and a
  card read at a moment when the clock shows the given stamp.
\<close>

definition verify_ok :: "string \<Rightarrow> record_env" where
  "verify_ok u =
     \<lparr>e_face = FaceMatched, e_date = ''2024-01-08'', e_time = ''09:00:30'',
      e_local_write_ok = True, e_mirror_date = ''2024-01-08'', e_mirror_time = ''09:00:31'',
      e_remote_write_ok = True\<rparr>"

definition tap :: "rfid \<Rightarrow> string \<Rightarrow> tap_env" where
  "tap c stamp =
     \<lparr>t_read = Card c, t_stamp = stamp, t_start_time = ''2024-01-08T09:00:00'',
      t_session_write_ok = True, t_verify = verify_ok, t_rfid_time = ''08:55:00''\<rparr>"

text \<open>What a tap of Ann's and of Bob's card stages.\<close>

definition ann_pending :: "string \<times> pending" where
  "ann_pending = (''17239b6e25011033'', \<lparr>p_name = ''Ann'', p_rfid_time = ''08:55:00''\<rparr>)"

definition bob_pending :: "string \<times> pending" where
  "bob_pending = (''cd9fb1e148ccd844'', \<lparr>p_name = ''Bob'', p_rfid_time = ''08:55:00''\<rparr>)"

text \<open>
  The state of a fresh process over a database with the three enrolments, and environments
  in which Ann's local write fails, or an interrupt arrives while Ann is verified.
\<close>

definition classroom :: system where
  "classroom = init_system [ann, bob] [eve] []"

definition verify_local_failure :: "string \<Rightarrow> record_env" where
  "verify_local_failure u =
     (if u = ''17239b6e25011033'' then (verify_ok u)\<lparr>e_local_write_ok := False\<rparr>
      else verify_ok u)"

definition verify_interrupted :: "string \<Rightarrow> record_env" where
  "verify_interrupted u =
     (if u = ''17239b6e25011033'' then (verify_ok u)\<lparr>e_face := CaptureInterrupted\<rparr>
      else verify_ok u)"

section \<open>Properties\<close>

subsection \<open>Enrolment\<close>

lemma is_rfid_registered_iff:
  "is_rfid_registered s t =
     ((\<exists>r\<in>set (students s). s_rfid_id r = t) \<or> (\<exists>r\<in>set (lecturers s). l_rfid_id r = t))"
  unfolding is_rfid_registered_def Let_def by (auto simp: find_None_iff)

lemma length_capture_face_samples:
  "length (capture_face_samples camera) = length (filter (\<lambda>i. camera i \<noteq> None) [0..<3])"
  unfolding capture_face_samples_def map_filter_def by simp

lemma register_student_Some:
  assumes "register_student h s reading name camera = (s1, Some u, m)"
  shows "u = generate_unique_id h name \<and> m = Registered
         \<and> (\<exists>r\<in>set (students s1). s_unique_id r = u \<and> s_name r = name)"
  using assms
  by (auto simp: register_student_def Let_def insert_student_def split: if_splits option.splits)

lemma register_lecturer_Some:
  assumes "register_lecturer h s reading name cn cc = (s1, Some u, m)"
  shows "u = generate_unique_id h name \<and> m = Registered
         \<and> (\<exists>r\<in>set (lecturers s1). l_unique_id r = u \<and> l_name r = name)"
  using assms
  by (auto simp: register_lecturer_def Let_def insert_lecturer_def split: if_splits option.splits)

lemma register_student_fails_on_id:
  assumes "\<exists>r\<in>set (students s). s_unique_id r = generate_unique_id h name"
  shows "fst (register_student h s reading name camera) = s
         \<and> fst (snd (register_student h s reading name camera)) = None"
  using assms
  by (auto simp: register_student_def Let_def insert_student_def list_ex_iff
      split: if_splits option.splits)

text \<open>The two enrolments of the examples, evaluated.\<close>

lemma register_ann:
  "register_student sha256_hex_examples (init_system [] [] []) (Some 1) ''Ann'' camera_all
     = (init_system [ann] [] [], Some ''17239b6e25011033'', Registered)"
  by (simp add: register_student_def is_rfid_registered_def init_system_def Let_def
      generate_unique_id_def sha256_hex_examples_def capture_face_samples_def map_filter_def
      camera_all_def upt_rec insert_student_def ann_def)

lemma register_eve:
  "register_lecturer sha256_hex_examples (init_system [] [] []) (Some 9) ''Eve'' ''Logic'' ''CS101''
     = (init_system [] [eve] [], Some ''b9bae658d9657985'', Registered)"
  by (simp add: register_lecturer_def is_rfid_registered_def init_system_def Let_def
      generate_unique_id_def sha256_hex_examples_def insert_lecturer_def eve_def)

text \<open>
  C8. A card already bound to a row of either table makes \<^verbatim>\<open>register_student\<close> and
  \<^verbatim>\<open>register_lecturer\<close> fail with the message "RFID card already registered", the state
  unchanged; a successful enrolment binds its card, so a second enrolment presenting it
  fails so. With a fresh card, fewer than two of the three captures succeeding makes
  \<^verbatim>\<open>register_student\<close> fail with "Face registration incomplete", the state unchanged: no
  row and no descriptor is stored.
\<close>

theorem enrolment_rejections:
  "((\<exists>r\<in>set (students s). s_rfid_id r = t) \<or> (\<exists>r\<in>set (lecturers s). l_rfid_id r = t)
      \<longrightarrow> register_student h s (Some t) name camera = (s, None, RfidAlreadyRegistered)
        \<and> register_lecturer h s (Some t) name cn cc = (s, None, RfidAlreadyRegistered))
   \<and> (\<not> ((\<exists>r\<in>set (students s). s_rfid_id r = t) \<or> (\<exists>r\<in>set (lecturers s). l_rfid_id r = t))
        \<and> length (filter (\<lambda>i. camera i \<noteq> None) [0..<3]) < 2
      \<longrightarrow> register_student h s (Some t) name camera = (s, None, FaceRegistrationIncomplete))
   \<and> (register_student h s (Some t) name camera = (s1, Some u, m)
      \<longrightarrow> (\<exists>r\<in>set (students s1). s_rfid_id r = t))
   \<and> (register_lecturer h s (Some t) name cn cc = (s1, Some u, m)
      \<longrightarrow> (\<exists>r\<in>set (lecturers s1). l_rfid_id r = t))"
proof (intro conjI impI)
  assume "(\<exists>r\<in>set (students s). s_rfid_id r = t) \<or> (\<exists>r\<in>set (lecturers s). l_rfid_id r = t)"
  then have reg: "is_rfid_registered s t" by (simp add: is_rfid_registered_iff)
  show "register_student h s (Some t) name camera = (s, None, RfidAlreadyRegistered)"
    using reg by (simp add: register_student_def)
  show "register_lecturer h s (Some t) name cn cc = (s, None, RfidAlreadyRegistered)"
    using reg by (simp add: register_lecturer_def)
next
  assume a: "\<not> ((\<exists>r\<in>set (students s). s_rfid_id r = t) \<or> (\<exists>r\<in>set (lecturers s). l_rfid_id r = t))
        \<and> length (filter (\<lambda>i. camera i \<noteq> None) [0..<3]) < 2"
  then have "\<not> is_rfid_registered s t" by (simp add: is_rfid_registered_iff)
  moreover from a have "length (capture_face_samples camera) < 2"
    by (simp only: length_capture_face_samples)
  ultimately show "register_student h s (Some t) name camera = (s, None, FaceRegistrationIncomplete)"
    by (simp add: register_student_def Let_def)
next
  assume "register_student h s (Some t) name camera = (s1, Some u, m)"
  then show "\<exists>r\<in>set (students s1). s_rfid_id r = t"
    by (auto simp: register_student_def Let_def insert_student_def split: if_splits option.splits)
next
  assume "register_lecturer h s (Some t) name cn cc = (s1, Some u, m)"
  then show "\<exists>r\<in>set (lecturers s1). l_rfid_id r = t"
    by (auto simp: register_lecturer_def Let_def insert_lecturer_def split: if_splits option.splits)
qed

theorem enrolment_rejections_witness:
  "register_student sha256_hex_examples (init_system [ann] [eve] []) (Some 1) ''Bob'' camera_all
     = (init_system [ann] [eve] [], None, RfidAlreadyRegistered)
   \<and> register_lecturer sha256_hex_examples (init_system [ann] [eve] []) (Some 1) ''Bob'' ''Sets'' ''CS102''
     = (init_system [ann] [eve] [], None, RfidAlreadyRegistered)
   \<and> register_student sha256_hex_examples (init_system [ann] [eve] []) (Some 2) ''Bob'' camera_once
     = (init_system [ann] [eve] [], None, FaceRegistrationIncomplete)
   \<and> (\<exists>r\<in>set (students (init_system [ann] [] [])). s_rfid_id r = 1)
   \<and> (\<exists>r\<in>set (lecturers (init_system [] [eve] [])). l_rfid_id r = 9)"
proof -
  have bound: "(\<exists>r\<in>set (students (init_system [ann] [eve] [])). s_rfid_id r = 1)
      \<or> (\<exists>r\<in>set (lecturers (init_system [ann] [eve] [])). l_rfid_id r = 1)"
    by (simp add: init_system_def ann_def)
  have fresh: "\<not> ((\<exists>r\<in>set (students (init_system [ann] [eve] [])). s_rfid_id r = 2)
      \<or> (\<exists>r\<in>set (lecturers (init_system [ann] [eve] [])). l_rfid_id r = 2))
      \<and> length (filter (\<lambda>i. camera_once i \<noteq> None) [0..<3]) < 2"
    by (simp add: init_system_def ann_def eve_def camera_once_def upt_rec)
  have c1: "register_student sha256_hex_examples (init_system [ann] [eve] []) (Some 1) ''Bob'' camera_all
        = (init_system [ann] [eve] [], None, RfidAlreadyRegistered)
      \<and> register_lecturer sha256_hex_examples (init_system [ann] [eve] []) (Some 1) ''Bob'' ''Sets'' ''CS102''
        = (init_system [ann] [eve] [], None, RfidAlreadyRegistered)"
    by (rule mp [OF enrolment_rejections [THEN conjunct1] bound])
  have c2: "register_student sha256_hex_examples (init_system [ann] [eve] []) (Some 2) ''Bob'' camera_once
        = (init_system [ann] [eve] [], None, FaceRegistrationIncomplete)"
    by (rule mp [OF enrolment_rejections [THEN conjunct2, THEN conjunct1] fresh])
  have c3: "\<exists>r\<in>set (students (init_system [ann] [] [])). s_rfid_id r = 1"
    by (rule mp [OF enrolment_rejections [THEN conjunct2, THEN conjunct2, THEN conjunct1]
          register_ann])
  have c4: "\<exists>r\<in>set (lecturers (init_system [] [eve] [])). l_rfid_id r = 9"
    by (rule mp [OF enrolment_rejections [THEN conjunct2, THEN conjunct2, THEN conjunct2]
          register_eve])
  show ?thesis
    by (intro conjI) (rule c1 [THEN conjunct1], rule c1 [THEN conjunct2], rule c2, rule c3, rule c4)
qed

lemma register_ann_lecturer:
  "register_lecturer sha256_hex_examples (init_system [ann] [] []) (Some 9) ''Ann'' ''Logic'' ''CS101''
     = (init_system [ann]
          [\<lparr>l_unique_id = ''17239b6e25011033'', l_name = ''Ann'', l_rfid_id = 9,
            l_course_name = ''Logic'', l_course_code = ''CS101''\<rparr>] [],
        Some ''17239b6e25011033'', Registered)"
  by (simp add: register_lecturer_def is_rfid_registered_def init_system_def Let_def
      generate_unique_id_def sha256_hex_examples_def insert_lecturer_def ann_def)

text \<open>
  C10. Once \<^verbatim>\<open>register_student\<close> has enrolled a student under a name, every later call
  with that name (the table \<^verbatim>\<open>students\<close> still holding the earlier rows) returns
  \<^verbatim>\<open>None\<close> and leaves the state unchanged, whatever card is read and whatever the
  camera captures; with a fresh card and at least two captures it is the INSERT that
  fails, on the primary key derived from the name.
\<close>

theorem same_name_enrolment_fails:
  assumes "register_student h s reading1 name camera1 = (s1, Some u, m)"
    and "set (students s1) \<subseteq> set (students s2)"
  shows "fst (register_student h s2 reading2 name camera2) = s2
         \<and> fst (snd (register_student h s2 reading2 name camera2)) = None
         \<and> (reading2 = Some t \<and> \<not> is_rfid_registered s2 t
                  \<and> 2 \<le> length (filter (\<lambda>i. camera2 i \<noteq> None) [0..<3])
               \<longrightarrow> snd (snd (register_student h s2 reading2 name camera2)) = InsertIntegrityError)"
proof -
  from register_student_Some [OF assms(1)] assms(2)
  have ex: "\<exists>r\<in>set (students s2). s_unique_id r = generate_unique_id h name"
    by blast
  then have "list_ex (\<lambda>r. s_unique_id r = generate_unique_id h name \<or> s_rfid_id r = t) (students s2)"
    by (auto simp: list_ex_iff)
  then have "snd (snd (register_student h s2 (Some t) name camera2)) = InsertIntegrityError"
    if "\<not> is_rfid_registered s2 t" and "2 \<le> length (capture_face_samples camera2)"
    using that by (auto simp: register_student_def Let_def insert_student_def)
  then have msg: "reading2 = Some t \<and> \<not> is_rfid_registered s2 t
                  \<and> 2 \<le> length (filter (\<lambda>i. camera2 i \<noteq> None) [0..<3])
               \<longrightarrow> snd (snd (register_student h s2 reading2 name camera2)) = InsertIntegrityError"
    unfolding length_capture_face_samples by blast
  from register_student_fails_on_id [OF ex] msg show ?thesis by blast
qed

theorem same_name_enrolment_fails_witness:
  "fst (register_student sha256_hex_examples (init_system [ann] [] []) (Some 2) ''Ann'' camera_all)
     = init_system [ann] [] []
   \<and> fst (snd (register_student sha256_hex_examples (init_system [ann] [] []) (Some 2) ''Ann''
        camera_all)) = None
   \<and> snd (snd (register_student sha256_hex_examples (init_system [ann] [] []) (Some 2) ''Ann''
        camera_all)) = InsertIntegrityError"
proof -
  have sub: "set (students (init_system [ann] [] [])) \<subseteq> set (students (init_system [ann] [] []))"
    by (rule subset_refl)
  note th = same_name_enrolment_fails [OF register_ann sub, of "Some 2" camera_all 2]
  have fresh: "Some (2::int) = Some 2 \<and> \<not> is_rfid_registered (init_system [ann] [] []) 2
      \<and> 2 \<le> length (filter (\<lambda>i. camera_all i \<noteq> None) [0..<3])"
    by (simp add: is_rfid_registered_def init_system_def ann_def camera_all_def upt_rec)
  show ?thesis
    by (intro conjI) (rule th [THEN conjunct1], rule th [THEN conjunct2, THEN conjunct1],
      rule mp [OF th [THEN conjunct2, THEN conjunct2] fresh])
qed

text \<open>
  C9, as the code has it. The identifier is a function of the name alone: every successful
  enrolment under a name, as student or as lecturer, in any state and with any card,
  returns \<^verbatim>\<open>generate_unique_id\<close> of that name, so two identities enrolled under the same
  name carry the same identifier.
\<close>

theorem id_from_name_alone:
  assumes "register_student h s reading name camera = (s1, Some u1, m1)"
    and "register_lecturer h s' reading' name cn cc = (s2, Some u2, m2)"
    and "register_student h s'' reading'' name camera'' = (s3, Some u3, m3)"
  shows "u1 = generate_unique_id h name \<and> u2 = u1 \<and> u3 = u1"
  using register_student_Some [OF assms(1)] register_lecturer_Some [OF assms(2)]
    register_student_Some [OF assms(3)] by simp

theorem id_from_name_alone_witness:
  "''17239b6e25011033'' = generate_unique_id sha256_hex_examples ''Ann''"
  by (rule id_from_name_alone [OF register_ann register_ann_lecturer register_ann,
        THEN conjunct1])

text \<open>
  C9 as stated fails: student Ann on card 1 and lecturer Ann on card 9 are two identities,
  both enrolments succeed, and both receive the identifier \<^verbatim>\<open>17239b6e25011033\<close>.
\<close>

theorem distinct_identities_share_id:
  "fst (snd (register_student sha256_hex_examples (init_system [] [] []) (Some 1) ''Ann''
       camera_all)) = Some ''17239b6e25011033''
   \<and> fst (snd (register_lecturer sha256_hex_examples (init_system [ann] [] []) (Some 9) ''Ann''
       ''Logic'' ''CS101'')) = Some ''17239b6e25011033''"
  by (simp only: register_ann register_ann_lecturer fst_conv snd_conv simp_thms)

subsection \<open>The verification pass\<close>


lemma log_attendance_to_firebase_fields [simp]:
  "students (log_attendance_to_firebase s env u n st) = students s"
  "attendance_log (log_attendance_to_firebase s env u n st) = attendance_log s"
  "current_session (log_attendance_to_firebase s env u n st) = current_session s"
  "persistent_rfid_attendance (log_attendance_to_firebase s env u n st) = persistent_rfid_attendance s"
  "new_rfid_attendance (log_attendance_to_firebase s env u n st) = new_rfid_attendance s"
  "temp_attendance (log_attendance_to_firebase s env u n st) = temp_attendance s"
  "lecturers (log_attendance_to_firebase s env u n st) = lecturers s"
  "lectures (log_attendance_to_firebase s env u n st) = lectures s"
  unfolding log_attendance_to_firebase_def by (simp_all split: option.splits)

lemma verify_records_append:
  "verify_records env sid (xs @ ys) s =
     (case verify_records env sid xs s of
        (s', PassCompleted) \<Rightarrow> verify_records env sid ys s'
      | r \<Rightarrow> r)"
proof (induction xs arbitrary: s)
  case Nil
  show ?case by simp
next
  case (Cons x xs)
  obtain u d where x: "x = (u, d)" by (cases x)
  show ?case
    unfolding x by (simp add: Cons.IH Let_def split: option.splits)
qed

lemma verify_records_fields:
  "students (fst (verify_records env sid xs s)) = students s
   \<and> current_session (fst (verify_records env sid xs s)) = current_session s
   \<and> persistent_rfid_attendance (fst (verify_records env sid xs s)) = persistent_rfid_attendance s
   \<and> new_rfid_attendance (fst (verify_records env sid xs s)) = new_rfid_attendance s
   \<and> temp_attendance (fst (verify_records env sid xs s)) = temp_attendance s
   \<and> lecturers (fst (verify_records env sid xs s)) = lecturers s
   \<and> lectures (fst (verify_records env sid xs s)) = lectures s"
proof (induction xs arbitrary: s)
  case Nil
  show ?case by simp
next
  case (Cons x xs)
  obtain u d where x: "x = (u, d)" by (cases x)
  show ?case
    unfolding x by (simp add: Cons.IH Let_def split: option.splits)
qed

text \<open>What a pass appends to the log, whatever its exit.\<close>

lemma verify_records_rows:
  "\<exists>rows. attendance_log (fst (verify_records env sid xs s)) = attendance_log s @ rows
      \<and> (\<forall>r\<in>set rows. a_session_id r = sid \<and> a_unique_id r \<in> fst ` set xs
             \<and> (a_status r = ''present'' \<or> a_status r = ''partial''))"
proof (induction xs arbitrary: s)
  case Nil
  show ?case by simp
next
  case (Cons x xs)
  obtain u d where x: "x = (u, d)" by (cases x)
  show ?case
  proof (cases "find (\<lambda>r. s_unique_id r = u) (students s)")
    case None
    with Cons.IH [of s] show ?thesis unfolding x by auto
  next
    case (Some st)
    show ?thesis
    proof (cases "e_face (env u) = CaptureInterrupted \<or> \<not> e_local_write_ok (env u)")
      case True
      with Some show ?thesis unfolding x by auto
    next
      case False
      define row where "row = \<lparr>a_unique_id = u, a_name = p_name d,
          a_date = e_date (env u), a_session_id = sid, a_rfid_time = p_rfid_time d,
          a_face_time = (if e_face (env u) = FaceMatched then Some (e_time (env u)) else None),
          a_status = (if e_face (env u) = FaceMatched then ''present'' else ''partial'')\<rparr>"
      define s2 where "s2 = log_attendance_to_firebase (s\<lparr>attendance_log := attendance_log s @ [row]\<rparr>)
          (env u) u (p_name d) (if e_face (env u) = FaceMatched then ''present'' else ''partial'')"
      have step: "verify_records env sid (x # xs) s = verify_records env sid xs s2"
        unfolding x using Some False by (simp add: Let_def row_def s2_def)
      have log2: "attendance_log s2 = attendance_log s @ [row]"
        by (simp add: s2_def)
      from Cons.IH [of s2] obtain rows where
        rows: "attendance_log (fst (verify_records env sid xs s2)) = attendance_log s2 @ rows"
        "\<forall>r\<in>set rows. a_session_id r = sid \<and> a_unique_id r \<in> fst ` set xs
             \<and> (a_status r = ''present'' \<or> a_status r = ''partial'')"
        by blast
      have "attendance_log (fst (verify_records env sid (x # xs) s)) = attendance_log s @ (row # rows)"
        using rows(1) by (simp add: step log2)
      moreover have "\<forall>r\<in>set (row # rows). a_session_id r = sid \<and> a_unique_id r \<in> fst ` set (x # xs)
             \<and> (a_status r = ''present'' \<or> a_status r = ''partial'')"
        using rows(2) by (auto simp: row_def x)
      ultimately show ?thesis by blast
    qed
  qed
qed


subsection \<open>The intake loop\<close>

lemma dict_update_keys:
  "fst ` set (dict_update d other) = fst ` set d \<union> fst ` set other"
  unfolding dict_update_def
proof (induction other arbitrary: d)
  case Nil
  show ?case by simp
next
  case (Cons x xs)
  show ?case by (cases x) (auto simp: Cons.IH dom_update)
qed

lemma dict_update_distinct:
  "distinct (map fst d) \<Longrightarrow> distinct (map fst (dict_update d other))"
  unfolding dict_update_def
proof (induction other arbitrary: d)
  case Nil
  then show ?case by simp
next
  case (Cons x xs)
  show ?case by (cases x) (simp add: Cons.IH Cons.prems distinct_update)
qed

lemma session_id_of_nonempty: "session_id_of c t \<noteq> []"
  by (simp add: session_id_of_def)

lemma owner_tap:
  assumes "t_read e = Card c"
    and "find (\<lambda>r. l_rfid_id r = c) (lecturers s) = Some lecturer"
    and "t_session_write_ok e"
  shows "\<exists>s3. students s3 = students s \<and> attendance_log s3 = attendance_log s
      \<and> lecturers s3 = lecturers s \<and> temp_attendance s3 = temp_attendance s
      \<and> new_rfid_attendance s3 = new_rfid_attendance s
      \<and> current_session s3 = Some (session_id_of (l_course_code lecturer) (t_stamp e))
      \<and> persistent_rfid_attendance s3
          = dict_update (persistent_rfid_attendance s) (new_rfid_attendance s)
      \<and> loop_iteration s e =
          (if snd (verify_records (t_verify e) (session_id_of (l_course_code lecturer) (t_stamp e))
                    (persistent_rfid_attendance s3) s3) = PassInterrupted
           then (fst (verify_records (t_verify e) (session_id_of (l_course_code lecturer) (t_stamp e))
                    (persistent_rfid_attendance s3) s3), Interrupted)
           else ((fst (verify_records (t_verify e) (session_id_of (l_course_code lecturer) (t_stamp e))
                    (persistent_rfid_attendance s3) s3))\<lparr>new_rfid_attendance := []\<rparr>,
                 Next SessionStarted))"
proof -
  define sid where "sid = session_id_of (l_course_code lecturer) (t_stamp e)"
  define s3 where "s3 = s\<lparr>lectures :=
      AList.update sid
        \<lparr>d_course_name = l_course_name lecturer, d_course_code = l_course_code lecturer,
         d_lecturer_name = l_name lecturer, d_lecturer_rfid = c,
         d_start_time = t_start_time e, d_status = ''active''\<rparr> (lectures s),
      current_session := Some sid,
      persistent_rfid_attendance :=
        dict_update (persistent_rfid_attendance s) (new_rfid_attendance s)\<rparr>"
  have va: "verify_attendance s3 (t_verify e) (persistent_rfid_attendance s3)
      = verify_records (t_verify e) sid (persistent_rfid_attendance s3) s3"
    by (simp add: verify_attendance_def s3_def sid_def session_id_of_nonempty)
  have "loop_iteration s e =
      (case verify_attendance s3 (t_verify e) (persistent_rfid_attendance s3) of
         (s4, PassInterrupted) \<Rightarrow> (s4, Interrupted)
       | (s4, _) \<Rightarrow> (s4\<lparr>new_rfid_attendance := []\<rparr>, Next SessionStarted))"
    using assms by (simp add: loop_iteration_def Let_def s3_def sid_def)
  then have "loop_iteration s e =
      (if snd (verify_records (t_verify e) sid (persistent_rfid_attendance s3) s3) = PassInterrupted
       then (fst (verify_records (t_verify e) sid (persistent_rfid_attendance s3) s3), Interrupted)
       else ((fst (verify_records (t_verify e) sid (persistent_rfid_attendance s3) s3))
               \<lparr>new_rfid_attendance := []\<rparr>, Next SessionStarted))"
    unfolding va
    by (cases "verify_records (t_verify e) sid (persistent_rfid_attendance s3) s3")
       (simp split: pass_exit.splits)
  moreover have "students s3 = students s" "attendance_log s3 = attendance_log s"
    "lecturers s3 = lecturers s" "temp_attendance s3 = temp_attendance s"
    "new_rfid_attendance s3 = new_rfid_attendance s" "current_session s3 = Some sid"
    "persistent_rfid_attendance s3
          = dict_update (persistent_rfid_attendance s) (new_rfid_attendance s)"
    by (simp_all add: s3_def)
  ultimately show ?thesis unfolding sid_def by blast
qed



subsection \<open>Worked examples of the loop\<close>

lemmas example_defs =
  classroom_def init_system_def ann_def bob_def eve_def ann_pending_def bob_pending_def
  tap_def verify_ok_def verify_local_failure_def verify_interrupted_def

lemmas loop_defs =
  loop_iteration_def verify_attendance_def log_attendance_to_firebase_def dict_update_def
  has_key_def session_id_of_def Let_def


lemma tap_bob_after_ann:
  "loop_iteration (classroom\<lparr>new_rfid_attendance := [ann_pending]\<rparr>) (tap 2 []) =
     (classroom\<lparr>new_rfid_attendance := [ann_pending, bob_pending]\<rparr>, Next NewCheckIn)"
  by (simp add: loop_defs example_defs)




subsection \<open>Local and remote writes\<close>











subsection \<open>Session identifiers\<close>

lemma owner_tap_session:
  assumes "t_read e = Card c"
    and "find (\<lambda>r. l_rfid_id r = c) (lecturers s) = Some lecturer"
    and "t_session_write_ok e"
  shows "current_session (fst (loop_iteration s e))
           = Some (session_id_of (l_course_code lecturer) (t_stamp e))"
proof -
  from owner_tap [OF assms] obtain s3 where
    "current_session s3 = Some (session_id_of (l_course_code lecturer) (t_stamp e))"
    and "loop_iteration s e =
          (if snd (verify_records (t_verify e) (session_id_of (l_course_code lecturer) (t_stamp e))
                    (persistent_rfid_attendance s3) s3) = PassInterrupted
           then (fst (verify_records (t_verify e) (session_id_of (l_course_code lecturer) (t_stamp e))
                    (persistent_rfid_attendance s3) s3), Interrupted)
           else ((fst (verify_records (t_verify e) (session_id_of (l_course_code lecturer) (t_stamp e))
                    (persistent_rfid_attendance s3) s3))\<lparr>new_rfid_attendance := []\<rparr>,
                 Next SessionStarted))"
    by blast
  then show ?thesis by (simp add: verify_records_fields)
qed

lemma session_id_of_eq_iff:
  assumes "length t1 = length t2"
  shows "(session_id_of c1 t1 = session_id_of c2 t2) = (c1 = c2 \<and> t1 = t2)"
  using assms by (simp add: session_id_of_def)

text \<open>
  C4, as the code has it. An owner tap sets \<^verbatim>\<open>current_session\<close> to the course code of the
  card's lecturer, an underscore and the clock stamp. For stamps of one length (\<^verbatim>\<open>strftime\<close>
  prints 15 characters), two owner taps derive the same session id exactly when the course
  codes are equal and the clock shows the same second.
\<close>

theorem session_ids_distinct_iff:
  assumes "t_read e1 = Card c1"
    and "find (\<lambda>r. l_rfid_id r = c1) (lecturers s1) = Some lecturer1"
    and "t_session_write_ok e1"
    and "t_read e2 = Card c2"
    and "find (\<lambda>r. l_rfid_id r = c2) (lecturers s2) = Some lecturer2"
    and "t_session_write_ok e2"
    and "length (t_stamp e1) = length (t_stamp e2)"
  shows "current_session (fst (loop_iteration s1 e1))
           = Some (session_id_of (l_course_code lecturer1) (t_stamp e1))
     \<and> current_session (fst (loop_iteration s2 e2))
           = Some (session_id_of (l_course_code lecturer2) (t_stamp e2))
     \<and> ((session_id_of (l_course_code lecturer1) (t_stamp e1)
            = session_id_of (l_course_code lecturer2) (t_stamp e2))
          = (l_course_code lecturer1 = l_course_code lecturer2 \<and> t_stamp e1 = t_stamp e2))"
  using owner_tap_session [OF assms(1-3)] owner_tap_session [OF assms(4-6)]
    session_id_of_eq_iff [OF assms(7)] by simp

theorem session_ids_distinct_iff_witness:
  "current_session (fst (loop_iteration classroom (tap 9 ''20240108_090000'')))
     = Some (session_id_of (l_course_code eve) (t_stamp (tap 9 ''20240108_090000'')))
   \<and> (session_id_of (l_course_code eve) (t_stamp (tap 9 ''20240108_090000''))
         = session_id_of (l_course_code eve) (t_stamp (tap 9 ''20240108_100000'')))
       = (l_course_code eve = l_course_code eve
           \<and> t_stamp (tap 9 ''20240108_090000'') = t_stamp (tap 9 ''20240108_100000''))"
proof -
  have h1: "t_read (tap 9 stamp) = Card 9" for stamp by (simp add: tap_def)
  have h2: "find (\<lambda>r. l_rfid_id r = 9) (lecturers classroom) = Some eve"
    by (simp add: classroom_def init_system_def eve_def)
  have h3: "t_session_write_ok (tap 9 stamp)" for stamp by (simp add: tap_def)
  have h7: "length (t_stamp (tap 9 ''20240108_090000'')) = length (t_stamp (tap 9 ''20240108_100000''))"
    by (simp add: tap_def)
  note th = session_ids_distinct_iff [OF h1 h2 h3 h1 h2 h3 h7]
  show ?thesis
    by (intro conjI) (rule th [THEN conjunct1], rule th [THEN conjunct2, THEN conjunct2])
qed

text \<open>
  C4 as stated fails: two owner taps of one run, read while the clock shows the same second
  (the card left on the reader), derive one session id, and the second session document
  overwrites the first.
\<close>

theorem two_owner_taps_one_session_id:
  "current_session (fst (mark_attendance_rfid classroom [tap 9 ''20240108_090000'']))
     = Some ''CS101_20240108_090000''
   \<and> current_session (fst (mark_attendance_rfid classroom
        [tap 9 ''20240108_090000'',
         (tap 9 ''20240108_090000'')\<lparr>t_start_time := ''2024-01-08T09:00:00.700000''\<rparr>]))
     = Some ''CS101_20240108_090000''"
  by (simp add: loop_defs example_defs)

subsection \<open>Duplicates and interrupts\<close>

text \<open>
  C2, as the code has it. A card of a student whose identifier is a key of the persistent
  dict is answered "No need to tap again": the iteration reports \<open>DuplicateConfirmed\<close> and
  returns the state it was given, so that tap stages, verifies and writes nothing.
\<close>

theorem duplicate_confirmed_tap:
  assumes "t_read e = Card c"
    and "find (\<lambda>r. l_rfid_id r = c) (lecturers s) = None"
    and "find (\<lambda>r. s_rfid_id r = c) (students s) = Some student"
    and "has_key (persistent_rfid_attendance s) (s_unique_id student)"
  shows "loop_iteration s e = (s, Next DuplicateConfirmed)"
  using assms by (simp add: loop_iteration_def)

theorem duplicate_confirmed_tap_witness:
  "loop_iteration (classroom\<lparr>persistent_rfid_attendance := [ann_pending]\<rparr>) (tap 1 [])
     = (classroom\<lparr>persistent_rfid_attendance := [ann_pending]\<rparr>, Next DuplicateConfirmed)"
proof -
  let ?s = "classroom\<lparr>persistent_rfid_attendance := [ann_pending]\<rparr>"
  have h1: "t_read (tap 1 []) = Card 1" by (simp add: tap_def)
  have h2: "find (\<lambda>r. l_rfid_id r = 1) (lecturers ?s) = None"
    by (simp add: example_defs)
  have h3: "find (\<lambda>r. s_rfid_id r = 1) (students ?s) = Some ann"
    by (simp add: example_defs)
  have h4: "has_key (persistent_rfid_attendance ?s) (s_unique_id ann)"
    by (simp add: example_defs has_key_def)
  show ?thesis by (rule duplicate_confirmed_tap [OF h1 h2 h3 h4])
qed


text \<open>
  C2 as stated fails in its last part: an owner tap hands the whole persistent dict to the
  verification pass. Ann is verified at the first owner tap, taps again (duplicate), and
  is verified and recorded again at the second owner tap.
\<close>

theorem confirmed_attendee_verified_again:
  "map (\<lambda>r. (a_unique_id r, a_session_id r, a_status r))
     (attendance_log (fst (mark_attendance_rfid classroom
        [tap 1 [], tap 9 ''20240108_090000'', tap 1 [], tap 9 ''20240108_100000''])))
   = [(''17239b6e25011033'', ''CS101_20240108_090000'', ''present''),
      (''17239b6e25011033'', ''CS101_20240108_100000'', ''present'')]"
  by (simp add: loop_defs example_defs)


text \<open>
  C3 at an interrupt. Ann taps, the lecturer taps, and a \<^verbatim>\<open>KeyboardInterrupt\<close> arrives
  while Ann's face is verified. The new dict was merged into the persistent one before
  the pass; the interrupt passes both \<^verbatim>\<open>except Exception\<close> handlers, so the assignment
  that empties the new dict is skipped, and the handler in \<^verbatim>\<open>run\<close> clears neither
  dict: Ann is a key of both.
\<close>

theorem interrupted_pass_leaves_identity_in_both_dicts:
  "snd (run_choice_3 classroom
          [tap 1 [], (tap 9 ''20240108_090000'')\<lparr>t_verify := verify_interrupted\<rparr>])
     = KeyboardInterrupt
   \<and> has_key (persistent_rfid_attendance (fst (run_choice_3 classroom
          [tap 1 [], (tap 9 ''20240108_090000'')\<lparr>t_verify := verify_interrupted\<rparr>])))
        ''17239b6e25011033''
   \<and> has_key (new_rfid_attendance (fst (run_choice_3 classroom
          [tap 1 [], (tap 9 ''20240108_090000'')\<lparr>t_verify := verify_interrupted\<rparr>])))
        ''17239b6e25011033''"
  by (simp add: run_choice_3_def loop_defs example_defs)

text \<open>
  C7 at an interrupt. After a session with Ann verified and Bob staged, a
  \<^verbatim>\<open>KeyboardInterrupt\<close> in the blocked read returns to \<^verbatim>\<open>run\<close>, whose handler sets
  \<^verbatim>\<open>temp_attendance\<close> (a dict nothing else reads or writes) and \<^verbatim>\<open>current_session\<close>.
  The session is reset, but both dicts keep their entries, and when the loop is entered
  again Bob's card is answered as a duplicate of the current session.
\<close>

theorem interrupt_keeps_staging_dicts:
  "run_choice_3 classroom
      [tap 1 [], tap 9 ''20240108_090000'', tap 2 [], (tap 2 [])\<lparr>t_read := ReaderInterrupt\<rparr>]
     = (fst (mark_attendance_rfid classroom [tap 1 [], tap 9 ''20240108_090000'', tap 2 []])
          \<lparr>current_session := None\<rparr>,
        KeyboardInterrupt)
   \<and> persistent_rfid_attendance (fst (run_choice_3 classroom
        [tap 1 [], tap 9 ''20240108_090000'', tap 2 [], (tap 2 [])\<lparr>t_read := ReaderInterrupt\<rparr>]))
     = [ann_pending]
   \<and> new_rfid_attendance (fst (run_choice_3 classroom
        [tap 1 [], tap 9 ''20240108_090000'', tap 2 [], (tap 2 [])\<lparr>t_read := ReaderInterrupt\<rparr>]))
     = [bob_pending]
   \<and> snd (loop_iteration (fst (run_choice_3 classroom
        [tap 1 [], tap 9 ''20240108_090000'', tap 2 [], (tap 2 [])\<lparr>t_read := ReaderInterrupt\<rparr>]))
        (tap 2 [])) = Next DuplicateInSession"
  by (simp add: run_choice_3_def loop_defs example_defs)

subsection \<open>Staging\<close>

text \<open>
  C3 away from interrupts: a first tap stages the student in the new dict, a repeat tap
  changes nothing and reports which dict holds the student, and an iteration that does not
  end in an interrupt keeps the key sets of the two dicts disjoint.
\<close>

lemma first_tap_stages:
  assumes "t_read e = Card c"
    and "find (\<lambda>r. l_rfid_id r = c) (lecturers s) = None"
    and "find (\<lambda>r. s_rfid_id r = c) (students s) = Some student"
    and "\<not> has_key (persistent_rfid_attendance s) (s_unique_id student)"
    and "\<not> has_key (new_rfid_attendance s) (s_unique_id student)"
  shows "loop_iteration s e =
     (s\<lparr>new_rfid_attendance := new_rfid_attendance s @
          [(s_unique_id student, \<lparr>p_name = s_name student, p_rfid_time = t_rfid_time e\<rparr>)]\<rparr>,
      Next NewCheckIn)"
proof -
  have "AList.update k v al = al @ [(k, v)]" if "k \<notin> fst ` set al" for k v and al :: attendance_dict
    using that by (induction al) auto
  then show ?thesis
    using assms by (simp add: loop_iteration_def has_key_def)
qed

lemma repeat_tap_reports_duplicate:
  assumes "t_read e = Card c"
    and "find (\<lambda>r. l_rfid_id r = c) (lecturers s) = None"
    and "find (\<lambda>r. s_rfid_id r = c) (students s) = Some student"
    and "has_key (persistent_rfid_attendance s) (s_unique_id student)
         \<or> has_key (new_rfid_attendance s) (s_unique_id student)"
  shows "loop_iteration s e =
     (s, Next (if has_key (persistent_rfid_attendance s) (s_unique_id student)
               then DuplicateConfirmed else DuplicateInSession))"
  using assms by (auto simp: loop_iteration_def)

lemma staging_disjoint_preserved:
  assumes "fst ` set (persistent_rfid_attendance s) \<inter> fst ` set (new_rfid_attendance s) = {}"
    and "snd (loop_iteration s e) \<noteq> Interrupted"
  shows "fst ` set (persistent_rfid_attendance (fst (loop_iteration s e)))
           \<inter> fst ` set (new_rfid_attendance (fst (loop_iteration s e))) = {}"
proof (cases "t_read e")
  case (Card c)
  show ?thesis
  proof (cases "find (\<lambda>r. l_rfid_id r = c) (lecturers s)")
    case (Some lecturer)
    show ?thesis
    proof (cases "t_session_write_ok e")
      case True
      from owner_tap [OF Card Some True] assms(2) show ?thesis
        by (auto split: if_splits)
    next
      case False
      with Card Some assms(1) show ?thesis by (simp add: loop_iteration_def)
    qed
  next
    case None
    show ?thesis
    proof (cases "find (\<lambda>r. s_rfid_id r = c) (students s)")
      case None': None
      with Card None assms(1) show ?thesis by (simp add: loop_iteration_def)
    next
      case (Some student)
      with Card None assms(1) show ?thesis
        by (auto simp: loop_iteration_def has_key_def dom_update)
    qed
  qed
next
  case ReaderException
  with assms(1) show ?thesis by (simp add: loop_iteration_def)
next
  case ReaderInterrupt
  with assms(1) show ?thesis by (simp add: loop_iteration_def)
qed

subsection \<open>Errors\<close>

lemma verify_records_not_interrupted:
  assumes "\<forall>k. e_face (env k) \<noteq> CaptureInterrupted"
  shows "snd (verify_records env sid xs s) \<noteq> PassInterrupted"
proof (induction xs arbitrary: s)
  case Nil
  show ?case by simp
next
  case (Cons x xs)
  obtain u d where x: "x = (u, d)" by (cases x)
  show ?case
    unfolding x using assms Cons.IH by (simp add: Let_def split: option.splits)
qed

lemma verify_records_fails_at:
  assumes "snd (verify_records env sid xs s) = PassCompleted"
    and "\<exists>r\<in>set (students s). s_unique_id r = u"
    and "e_face (env u) \<noteq> CaptureInterrupted"
    and "\<not> e_local_write_ok (env u)"
  shows "verify_records env sid (xs @ (u, d) # ys) s
           = (fst (verify_records env sid xs s), PassFailed)"
proof -
  obtain s1 where s1: "verify_records env sid xs s = (s1, PassCompleted)"
    using assms(1) by (cases "verify_records env sid xs s") simp
  have "students s1 = students s"
    using verify_records_fields [of env sid xs s] by (simp add: s1)
  with assms(2) obtain st where "find (\<lambda>r. s_unique_id r = u) (students s1) = Some st"
    by (cases "find (\<lambda>r. s_unique_id r = u) (students s1)") (auto simp: find_None_iff)
  then have "verify_records env sid ((u, d) # ys) s1 = (s1, PassFailed)"
    using assms(3,4) by (simp add: Let_def)
  then show ?thesis by (simp add: verify_records_append s1)
qed

text \<open>
  C5, as the code has it.
  \<^item> A failed local write ends the verification pass: when the pass has completed over
    \<open>xs\<close> and the INSERT for the next identity raises, the pass over \<open>xs\<close>, that identity
    and any further items \<open>ys\<close> ends as failed in the state reached after \<open>xs\<close>; neither
    the failing identity nor any of \<open>ys\<close> is processed.
  \<^item> An owner tap whose session document is written and whose pass meets no interrupt
    reports the session start whatever the local and remote writes of the pass do, and
    the loop goes on with the next event.
  \<^item> An exception outside the pass (the reader raises, or the write of the session
    document fails) ends the loop: the method returns through its handler with the state
    unchanged by that event, and later events are not read.
  \<^item> An interrupt in the blocked read leaves the method as \<^verbatim>\<open>KeyboardInterrupt\<close>.
\<close>

theorem errors_in_the_loop:
  "(snd (verify_records env sid xs s) = PassCompleted
      \<and> (\<exists>r\<in>set (students s). s_unique_id r = u)
      \<and> e_face (env u) \<noteq> CaptureInterrupted \<and> \<not> e_local_write_ok (env u)
    \<longrightarrow> verify_records env sid (xs @ (u, d) # ys) s
          = (fst (verify_records env sid xs s), PassFailed))
   \<and> (t_read e = Card c \<and> find (\<lambda>r. l_rfid_id r = c) (lecturers s) = Some lecturer
      \<and> t_session_write_ok e \<and> (\<forall>k. e_face (t_verify e k) \<noteq> CaptureInterrupted)
    \<longrightarrow> snd (loop_iteration s e) = Next SessionStarted
        \<and> mark_attendance_rfid s (e # es) = mark_attendance_rfid (fst (loop_iteration s e)) es)
   \<and> (t_read e = ReaderException
      \<or> (t_read e = Card c \<and> find (\<lambda>r. l_rfid_id r = c) (lecturers s) = Some lecturer
          \<and> \<not> t_session_write_ok e)
    \<longrightarrow> mark_attendance_rfid s (e # es) = (s, Returned))
   \<and> (t_read e = ReaderInterrupt
    \<longrightarrow> mark_attendance_rfid s (e # es) = (s, KeyboardInterrupt))"
proof (intro conjI impI)
  assume "snd (verify_records env sid xs s) = PassCompleted
      \<and> (\<exists>r\<in>set (students s). s_unique_id r = u)
      \<and> e_face (env u) \<noteq> CaptureInterrupted \<and> \<not> e_local_write_ok (env u)"
  then show "verify_records env sid (xs @ (u, d) # ys) s
          = (fst (verify_records env sid xs s), PassFailed)"
    using verify_records_fails_at by blast
next
  assume a: "t_read e = Card c \<and> find (\<lambda>r. l_rfid_id r = c) (lecturers s) = Some lecturer
      \<and> t_session_write_ok e \<and> (\<forall>k. e_face (t_verify e k) \<noteq> CaptureInterrupted)"
  then have ni: "snd (verify_records (t_verify e) sid' xs' s') \<noteq> PassInterrupted" for sid' xs' s'
    using verify_records_not_interrupted by blast
  from a owner_tap [of e c s lecturer] ni
  show out: "snd (loop_iteration s e) = Next SessionStarted" by auto
  then show "mark_attendance_rfid s (e # es) = mark_attendance_rfid (fst (loop_iteration s e)) es"
    by (cases "loop_iteration s e") simp
next
  assume "t_read e = ReaderException
      \<or> (t_read e = Card c \<and> find (\<lambda>r. l_rfid_id r = c) (lecturers s) = Some lecturer
          \<and> \<not> t_session_write_ok e)"
  then have "loop_iteration s e = (s, Raised)"
    by (auto simp: loop_iteration_def Let_def)
  then show "mark_attendance_rfid s (e # es) = (s, Returned)" by simp
next
  assume "t_read e = ReaderInterrupt"
  then have "loop_iteration s e = (s, Interrupted)"
    by (simp add: loop_iteration_def)
  then show "mark_attendance_rfid s (e # es) = (s, KeyboardInterrupt)" by simp
qed


theorem errors_in_the_loop_witness:
  "verify_records verify_local_failure ''CS101_20240108_090000''
      ([bob_pending] @ (''17239b6e25011033'', snd ann_pending) # []) classroom
     = (fst (verify_records verify_local_failure ''CS101_20240108_090000'' [bob_pending] classroom),
        PassFailed)
   \<and> snd (loop_iteration (classroom\<lparr>new_rfid_attendance := [ann_pending]\<rparr>)
           ((tap 9 ''20240108_090000'')\<lparr>t_verify := verify_local_failure\<rparr>)) = Next SessionStarted
   \<and> mark_attendance_rfid classroom ((tap 1 [])\<lparr>t_read := ReaderException\<rparr> # [tap 1 []])
     = (classroom, Returned)
   \<and> mark_attendance_rfid classroom ((tap 1 [])\<lparr>t_read := ReaderInterrupt\<rparr> # [tap 1 []])
     = (classroom, KeyboardInterrupt)"
proof -
  have a1: "snd (verify_records verify_local_failure ''CS101_20240108_090000'' [bob_pending] classroom)
        = PassCompleted
      \<and> (\<exists>r\<in>set (students classroom). s_unique_id r = ''17239b6e25011033'')
      \<and> e_face (verify_local_failure ''17239b6e25011033'') \<noteq> CaptureInterrupted
      \<and> \<not> e_local_write_ok (verify_local_failure ''17239b6e25011033'')"
    by (simp add: loop_defs example_defs)
  have c1: "verify_records verify_local_failure ''CS101_20240108_090000''
      ([bob_pending] @ (''17239b6e25011033'', snd ann_pending) # []) classroom
     = (fst (verify_records verify_local_failure ''CS101_20240108_090000'' [bob_pending] classroom),
        PassFailed)"
    by (rule mp [OF errors_in_the_loop [THEN conjunct1] a1])
  let ?s = "classroom\<lparr>new_rfid_attendance := [ann_pending]\<rparr>"
  let ?e = "(tap 9 ''20240108_090000'')\<lparr>t_verify := verify_local_failure\<rparr>"
  have a2: "t_read ?e = Card 9 \<and> find (\<lambda>r. l_rfid_id r = 9) (lecturers ?s) = Some eve
      \<and> t_session_write_ok ?e \<and> (\<forall>k. e_face (t_verify ?e k) \<noteq> CaptureInterrupted)"
    by (simp add: example_defs)
  have c2: "snd (loop_iteration ?s ?e) = Next SessionStarted"
    by (rule mp [OF errors_in_the_loop [THEN conjunct2, THEN conjunct1] a2, THEN conjunct1])
  have a3: "t_read ((tap 1 [])\<lparr>t_read := ReaderException\<rparr>) = ReaderException
      \<or> (t_read ((tap 1 [])\<lparr>t_read := ReaderException\<rparr>) = Card 9
          \<and> find (\<lambda>r. l_rfid_id r = 9) (lecturers classroom) = Some eve
          \<and> \<not> t_session_write_ok ((tap 1 [])\<lparr>t_read := ReaderException\<rparr>))"
    by simp
  have c3: "mark_attendance_rfid classroom ((tap 1 [])\<lparr>t_read := ReaderException\<rparr> # [tap 1 []])
     = (classroom, Returned)"
    by (rule mp [OF errors_in_the_loop [THEN conjunct2, THEN conjunct2, THEN conjunct1] a3])
  have a4: "t_read ((tap 1 [])\<lparr>t_read := ReaderInterrupt\<rparr>) = ReaderInterrupt"
    by simp
  have c4: "mark_attendance_rfid classroom ((tap 1 [])\<lparr>t_read := ReaderInterrupt\<rparr> # [tap 1 []])
     = (classroom, KeyboardInterrupt)"
    by (rule mp [OF errors_in_the_loop [THEN conjunct2, THEN conjunct2, THEN conjunct2] a4])
  show ?thesis
    by (intro conjI) (rule c1, rule c2, rule c3, rule c4)
qed

text \<open>
  C5 as stated fails. Ann and Bob tap, then the lecturer: the INSERT of Ann's row raises,
  the handler around the whole loop of \<^verbatim>\<open>verify_attendance\<close> logs it, and Bob, the next
  pending identity, is not processed although his writes would succeed: the log stays
  empty. And a reader that raises ends the intake loop: the method returns and the tap
  that follows is never read.
\<close>

theorem failed_write_skips_next_record:
  "attendance_log (fst (mark_attendance_rfid classroom
      [tap 1 [], tap 2 [], (tap 9 ''20240108_090000'')\<lparr>t_verify := verify_local_failure\<rparr>])) = []
   \<and> persistent_rfid_attendance (fst (mark_attendance_rfid classroom
      [tap 1 [], tap 2 [], (tap 9 ''20240108_090000'')\<lparr>t_verify := verify_local_failure\<rparr>]))
     = [ann_pending, bob_pending]
   \<and> e_local_write_ok (verify_local_failure (fst bob_pending))
   \<and> mark_attendance_rfid classroom [(tap 1 [])\<lparr>t_read := ReaderException\<rparr>, tap 1 []]
     = (classroom, Returned)"
  by (simp add: loop_defs example_defs)

subsection \<open>States the loop reaches\<close>

text \<open>
  The hypotheses of C1 on the dicts hold in every state the loop reaches: the loop never
  changes \<^verbatim>\<open>students\<close>, keeps the keys of each dict distinct, and stages only identities
  that have a row there.
\<close>

lemma loop_iteration_staging:
  assumes "distinct (map fst (persistent_rfid_attendance s))"
    and "distinct (map fst (new_rfid_attendance s))"
    and "\<forall>k\<in>fst ` set (persistent_rfid_attendance s) \<union> fst ` set (new_rfid_attendance s).
           \<exists>r\<in>set (students s). s_unique_id r = k"
  shows "students (fst (loop_iteration s e)) = students s
     \<and> distinct (map fst (persistent_rfid_attendance (fst (loop_iteration s e))))
     \<and> distinct (map fst (new_rfid_attendance (fst (loop_iteration s e))))
     \<and> (\<forall>k\<in>fst ` set (persistent_rfid_attendance (fst (loop_iteration s e)))
             \<union> fst ` set (new_rfid_attendance (fst (loop_iteration s e))).
           \<exists>r\<in>set (students s). s_unique_id r = k)"
proof (cases "t_read e")
  case (Card c)
  show ?thesis
  proof (cases "find (\<lambda>r. l_rfid_id r = c) (lecturers s)")
    case (Some lecturer)
    show ?thesis
    proof (cases "t_session_write_ok e")
      case True
      from owner_tap [OF Card Some True] obtain s3 where
        s3: "students s3 = students s" "new_rfid_attendance s3 = new_rfid_attendance s"
          "persistent_rfid_attendance s3
             = dict_update (persistent_rfid_attendance s) (new_rfid_attendance s)"
        and it: "fst (loop_iteration s e) = fst (verify_records (t_verify e)
                   (session_id_of (l_course_code lecturer) (t_stamp e))
                   (persistent_rfid_attendance s3) s3)
            \<or> fst (loop_iteration s e) = (fst (verify_records (t_verify e)
                   (session_id_of (l_course_code lecturer) (t_stamp e))
                   (persistent_rfid_attendance s3) s3))\<lparr>new_rfid_attendance := []\<rparr>"
        by (auto split: if_splits)
      have keys: "fst ` set (persistent_rfid_attendance s3)
          = fst ` set (persistent_rfid_attendance s) \<union> fst ` set (new_rfid_attendance s)"
        by (simp add: s3(3) dict_update_keys)
      have dist: "distinct (map fst (persistent_rfid_attendance s3))"
        by (simp add: s3(3) dict_update_distinct assms(1))
      define r where "r = fst (verify_records (t_verify e)
          (session_id_of (l_course_code lecturer) (t_stamp e)) (persistent_rfid_attendance s3) s3)"
      have r: "students r = students s"
          "persistent_rfid_attendance r = persistent_rfid_attendance s3"
          "new_rfid_attendance r = new_rfid_attendance s"
        using verify_records_fields [of "t_verify e"
            "session_id_of (l_course_code lecturer) (t_stamp e)"
            "persistent_rfid_attendance s3" s3] s3(1,2)
        by (simp_all add: r_def)
      have enr: "\<forall>k\<in>fst ` set (persistent_rfid_attendance s3) \<union> fst ` set (new_rfid_attendance s).
           \<exists>r\<in>set (students s). s_unique_id r = k"
        unfolding keys using assms(3) by blast
      from it have "fst (loop_iteration s e) = r \<or> fst (loop_iteration s e) = r\<lparr>new_rfid_attendance := []\<rparr>"
        by (simp add: r_def)
      then show ?thesis
      proof
        assume "fst (loop_iteration s e) = r"
        then show ?thesis using r dist assms(2) enr by simp
      next
        assume "fst (loop_iteration s e) = r\<lparr>new_rfid_attendance := []\<rparr>"
        then show ?thesis using r dist enr by simp
      qed
    next
      case False
      with Card Some assms show ?thesis by (simp add: loop_iteration_def)
    qed
  next
    case None
    show ?thesis
    proof (cases "find (\<lambda>r. s_rfid_id r = c) (students s)")
      case None': None
      with Card None assms show ?thesis by (simp add: loop_iteration_def)
    next
      case (Some student)
      then have "student \<in> set (students s)"
        by (auto simp: find_Some_iff)
      with Card None Some assms show ?thesis
        by (auto simp: loop_iteration_def has_key_def dom_update distinct_update
            simp del: map_map)
    qed
  qed
next
  case ReaderException
  with assms show ?thesis by (simp add: loop_iteration_def)
next
  case ReaderInterrupt
  with assms show ?thesis by (simp add: loop_iteration_def)
qed

lemma mark_attendance_rfid_staging:
  assumes "distinct (map fst (persistent_rfid_attendance s))"
    and "distinct (map fst (new_rfid_attendance s))"
    and "\<forall>k\<in>fst ` set (persistent_rfid_attendance s) \<union> fst ` set (new_rfid_attendance s).
           \<exists>r\<in>set (students s). s_unique_id r = k"
  shows "students (fst (mark_attendance_rfid s es)) = students s
     \<and> distinct (map fst (persistent_rfid_attendance (fst (mark_attendance_rfid s es))))
     \<and> distinct (map fst (new_rfid_attendance (fst (mark_attendance_rfid s es))))
     \<and> (\<forall>k\<in>fst ` set (persistent_rfid_attendance (fst (mark_attendance_rfid s es)))
             \<union> fst ` set (new_rfid_attendance (fst (mark_attendance_rfid s es))).
           \<exists>r\<in>set (students s). s_unique_id r = k)"
  using assms
proof (induction es arbitrary: s)
  case Nil
  then show ?case by simp
next
  case (Cons e es)
  obtain s' ex where step: "loop_iteration s e = (s', ex)" by (cases "loop_iteration s e")
  from loop_iteration_staging [OF Cons.prems, of e]
  have inv: "students s' = students s"
      "distinct (map fst (persistent_rfid_attendance s'))"
      "distinct (map fst (new_rfid_attendance s'))"
      "\<forall>k\<in>fst ` set (persistent_rfid_attendance s') \<union> fst ` set (new_rfid_attendance s').
           \<exists>r\<in>set (students s'). s_unique_id r = k"
    by (simp_all add: step)
  show ?case
  proof (cases ex)
    case (Next out)
    from Cons.IH [OF inv(2,3,4)] show ?thesis by (simp add: step Next inv(1))
  next
    case Raised
    with inv show ?thesis by (simp add: step)
  next
    case Interrupted
    with inv show ?thesis by (simp add: step)
  qed
qed

subsection \<open>The table of students\<close>

text \<open>
  No operation removes a row of \<^verbatim>\<open>students\<close>: enrolment of a student appends at most one
  row, and enrolment of a lecturer, the intake loop and the interrupt handler leave the
  table as it is. So the rows of an earlier state are rows of every later one, as C10
  supposes.
\<close>

lemma register_student_students:
  "set (students s) \<subseteq> set (students (fst (register_student h s reading name camera)))"
  by (auto simp: register_student_def Let_def insert_student_def split: option.splits)

lemma register_lecturer_students:
  "students (fst (register_lecturer h s reading name cn cc)) = students s"
  by (auto simp: register_lecturer_def Let_def insert_lecturer_def split: option.splits)

lemma loop_iteration_students:
  "students (fst (loop_iteration s e)) = students s"
proof (cases "t_read e")
  case (Card c)
  show ?thesis
  proof (cases "find (\<lambda>r. l_rfid_id r = c) (lecturers s)")
    case (Some lecturer)
    show ?thesis
    proof (cases "t_session_write_ok e")
      case True
      from owner_tap [OF Card Some True] show ?thesis
        by (auto simp: verify_records_fields split: if_splits)
    next
      case False
      with Card Some show ?thesis by (simp add: loop_iteration_def)
    qed
  next
    case None
    with Card show ?thesis
      by (simp add: loop_iteration_def split: option.splits)
  qed
next
  case ReaderException
  then show ?thesis by (simp add: loop_iteration_def)
next
  case ReaderInterrupt
  then show ?thesis by (simp add: loop_iteration_def)
qed

lemma mark_attendance_rfid_students:
  "students (fst (mark_attendance_rfid s es)) = students s"
proof (induction es arbitrary: s)
  case Nil
  show ?case by simp
next
  case (Cons e es)
  obtain s' ex where step: "loop_iteration s e = (s', ex)" by (cases "loop_iteration s e")
  have "students s' = students s"
    using loop_iteration_students [of s e] by (simp add: step)
  then show ?case
    using Cons.IH [of s'] by (cases ex) (simp_all add: step)
qed

lemma run_choice_3_students:
  "students (fst (run_choice_3 s es)) = students s"
proof -
  obtain s' ex where r: "mark_attendance_rfid s es = (s', ex)"
    by (cases "mark_attendance_rfid s es")
  have "students s' = students s"
    using mark_attendance_rfid_students [of s es] by (simp add: r)
  then show ?thesis by (cases ex) (simp_all add: run_choice_3_def r)
qed

end
